theory Spec2Isabelle
  imports Main "HOL-Library.Word"
begin

section \<open>SSL exporter: certificate-date probing and metrics publication\<close>

text \<open>
  A shallow embedding of \<^verbatim>\<open>main.go\<close>. Go strings are byte sequences, so they are
  \<^typ>\<open>string\<close> here. The functions of the Go standard library the program calls are
  modelled from their documented behaviour in the first subsections; the program's
  own functions (\<^verbatim>\<open>getSSLCertDates\<close>, \<^verbatim>\<open>readDomains\<close>, \<^verbatim>\<open>updateMetrics\<close>, \<^verbatim>\<open>main\<close>)
  follow, each transcribed from its source text.
\<close>

subsection \<open>Errors\<close>

text \<open>
  The values of Go's \<^verbatim>\<open>error\<close> interface that can reach this program:
  \<^item> \<open>ExitError n\<close>: \<^verbatim>\<open>*exec.ExitError\<close>, the command ran and exited with status \<open>n \<noteq> 0\<close>;
  \<^item> \<open>ExecFailure\<close>: any other error of \<^verbatim>\<open>Cmd.Output\<close> (the shell could not be started);
  \<^item> \<open>ParseError layout value\<close>: \<^verbatim>\<open>*time.ParseError\<close> with its \<^verbatim>\<open>Layout\<close> and \<^verbatim>\<open>Value\<close>;
  \<^item> \<open>PathError path\<close>: \<^verbatim>\<open>*fs.PathError\<close> of \<^verbatim>\<open>os.Open\<close>;
  \<^item> \<open>ReadError\<close>: an I/O error of a read on an open file;
  \<^item> \<open>ErrTooLong\<close>: \<^verbatim>\<open>bufio.ErrTooLong\<close>, "token too long".
\<close>

datatype error =
    ExitError nat
  | ExecFailure
  | ParseError string string
  | PathError string
  | ReadError
  | ErrTooLong

text \<open>
  The spec's Probe Error is an error of the external call; its Parse Error is
  \<open>ParseError\<close>.
\<close>

fun is_probe_error :: "error \<Rightarrow> bool" where
  "is_probe_error (ExitError n) = True"
| "is_probe_error ExecFailure = True"
| "is_probe_error e = False"

subsection \<open>Package strings\<close>

text \<open>
  \<^verbatim>\<open>func HasPrefix(s, prefix string) bool {
      return len(s) >= len(prefix) && s[:len(prefix)] == prefix }\<close>
\<close>

definition HasPrefix :: "string \<Rightarrow> string \<Rightarrow> bool" where
  "HasPrefix s pre \<longleftrightarrow> length pre \<le> length s \<and> take (length pre) s = pre"

text \<open>
  \<^verbatim>\<open>func TrimPrefix(s, prefix string) string {
      if HasPrefix(s, prefix) { return s[len(prefix):] }
      return s }\<close>
\<close>

definition TrimPrefix :: "string \<Rightarrow> string \<Rightarrow> string" where
  "TrimPrefix s pre = (if HasPrefix s pre then drop (length pre) s else s)"

text \<open>
  \<^verbatim>\<open>strings.Split(s, sep)\<close> for a separator of one byte: the substrings between the
  separators, so one more piece than there are separators; a string without separator
  (the empty one too) gives the one-element list holding it. \<open>split_from cur s sep\<close>
  is the scan from left to right, \<open>cur\<close> being the piece read so far.
\<close>

fun split_from :: "string \<Rightarrow> string \<Rightarrow> char \<Rightarrow> string list" where
  "split_from cur [] sep = [cur]"
| "split_from cur (c # cs) sep =
     (if c = sep then cur # split_from [] cs sep else split_from (cur @ [c]) cs sep)"

definition Split :: "string \<Rightarrow> char \<Rightarrow> string list" where
  "Split s sep = split_from [] s sep"

definition newline :: char where
  "newline = CHR 0x0A"

subsection \<open>Package time\<close>

text \<open>
  A \<^verbatim>\<open>time.Time\<close> without monotonic clock reading, which is what \<^verbatim>\<open>time.Parse\<close> returns and
  what the zero value is: \<^verbatim>\<open>ext\<close> holds the seconds since January 1, year 1 00:00:00 UTC
  as an \<^verbatim>\<open>int64\<close>, \<^verbatim>\<open>wall\<close> the nanoseconds. The location only affects printing and is
  left out.
\<close>

record Time =
  ext :: "64 word"
  wall :: nat

definition zeroTime :: Time where
  "zeroTime = \<lparr>ext = 0, wall = 0\<rparr>"

text \<open>
  \<^verbatim>\<open>unixToInternal int64 = (1969*365 + 1969/4 - 1969/100 + 1969/400) * secondsPerDay\<close>,
  \<^verbatim>\<open>internalToUnix int64 = -unixToInternal\<close>, and
  \<^verbatim>\<open>func (t Time) Unix() int64 { return t.sec() + internalToUnix }\<close> in \<^verbatim>\<open>int64\<close> arithmetic.
\<close>

definition secondsPerDay :: "64 word" where
  "secondsPerDay = 86400"

definition unixToInternal :: "64 word" where
  "unixToInternal = (1969 * 365 + 1969 div 4 - 1969 div 100 + 1969 div 400) * secondsPerDay"

definition internalToUnix :: "64 word" where
  "internalToUnix = - unixToInternal"

definition Unix :: "Time \<Rightarrow> int" where
  "Unix t = sint (ext t + internalToUnix)"

text \<open>
  The conversion \<^verbatim>\<open>float64(x)\<close> of an \<^verbatim>\<open>int64\<close>: the nearest value with a 53-bit
  significand, ties to even. Every result is an integer, so a \<^verbatim>\<open>float64\<close> that holds
  one is written as the integer it equals.
\<close>

fun nbits :: "nat \<Rightarrow> nat" where
  "nbits n = (if n = 0 then 0 else Suc (nbits (n div 2)))"

declare nbits.simps [simp del]

definition float64 :: "int \<Rightarrow> int" where
  "float64 x =
     (let m = nat \<bar>x\<bar>; e = nbits m - 53;
          q = m div 2 ^ e; r = m mod 2 ^ e;
          q' = (if 2 * r > 2 ^ e \<or> (2 * r = 2 ^ e \<and> odd q) then q + 1 else q)
      in sgn x * int (q' * 2 ^ e))"

text \<open>
  \<^verbatim>\<open>time.Parse(layout, value)\<close> depends on the zone database of the machine (the layout
  of this program ends in a zone abbreviation), so it is a parameter \<open>parse\<close> of the model:
  \<open>parse layout value\<close> is \<open>Some t\<close> when the value conforms to the layout and denotes \<open>t\<close>,
  and \<open>None\<close> when Go returns a \<^verbatim>\<open>*ParseError\<close>.
\<close>

type_synonym parser = "string \<Rightarrow> string \<Rightarrow> Time option"

definition time_Parse :: "parser \<Rightarrow> string \<Rightarrow> string \<Rightarrow> error + Time" where
  "time_Parse parse layout v =
     (case parse layout v of None \<Rightarrow> Inl (ParseError layout v) | Some t \<Rightarrow> Inr t)"

subsection \<open>Package os/exec\<close>

text \<open>
  What running a command gives: it ran, exited with a status and wrote some bytes to its
  standard output, or it could not be run. \<^verbatim>\<open>Cmd.Output\<close> returns the output with a nil
  error exactly for exit status 0.
\<close>

datatype proc_outcome = Exited nat string | NotStarted

fun Output :: "proc_outcome \<Rightarrow> error + string" where
  "Output (Exited n out) = (if n = 0 then Inr out else Inl (ExitError n))"
| "Output NotStarted = Inl ExecFailure"

text \<open>
  The world outside is a parameter: \<open>bash k cmd\<close> is the outcome of \<^verbatim>\<open>bash -c cmd\<close> when
  it is the \<open>k\<close>-th command the process runs (counting from 0), so the same command may
  end differently each time it is run.
\<close>

type_synonym shell = "nat \<Rightarrow> string \<Rightarrow> proc_outcome"

subsection \<open>getSSLCertDates\<close>

definition layout :: string where
  "layout = ''Jan 2 15:04:05 2006 MST''"

definition probe_cmd :: "string \<Rightarrow> string" where
  "probe_cmd domain =
     ''openssl s_client -connect '' @ domain @ '':443 -servername '' @ domain @
     '' < /dev/null 2>/dev/null | openssl x509 -noout -dates''"

text \<open>
  The loop over the lines (lines 50 to 63 of \<^verbatim>\<open>main.go\<close>), with the two named results
  \<^verbatim>\<open>start\<close> and \<^verbatim>\<open>expiry\<close> as accumulators. The values returned beside a non-nil error are
  never read by the caller, so an error is returned alone.
\<close>

fun scan_dates :: "parser \<Rightarrow> string list \<Rightarrow> Time \<Rightarrow> Time \<Rightarrow> error + Time \<times> Time" where
  "scan_dates parse [] start expiry = Inr (start, expiry)"
| "scan_dates parse (line # rest) start expiry =
     (if HasPrefix line ''notBefore='' then
        (case time_Parse parse layout (TrimPrefix line ''notBefore='') of
           Inl err \<Rightarrow> Inl err
         | Inr t \<Rightarrow> scan_dates parse rest t expiry)
      else if HasPrefix line ''notAfter='' then
        (case time_Parse parse layout (TrimPrefix line ''notAfter='') of
           Inl err \<Rightarrow> Inl err
         | Inr t \<Rightarrow> scan_dates parse rest start t)
      else scan_dates parse rest start expiry)"

text \<open>\<open>k\<close> is the number of commands the process has run before this call.\<close>

definition getSSLCertDates ::
  "shell \<Rightarrow> parser \<Rightarrow> nat \<Rightarrow> string \<Rightarrow> error + Time \<times> Time" where
  "getSSLCertDates bash parse k domain =
     (case Output (bash k (probe_cmd domain)) of
        Inl err \<Rightarrow> Inl err
      | Inr output \<Rightarrow> scan_dates parse (Split output newline) zeroTime zeroTime)"

subsection \<open>The metrics registry and the log\<close>

text \<open>
  The two gauge vectors \<^verbatim>\<open>certStart\<close> and \<^verbatim>\<open>certExpiry\<close> have the single label \<^verbatim>\<open>domain\<close>:
  each is a map from the label's value to the gauge's \<^verbatim>\<open>float64\<close>.
  \<^verbatim>\<open>With(labels)\<close> creates the child gauge when it is missing and \<^verbatim>\<open>Set\<close> overwrites it, a
  map update. The log is the list of the lines printed so far, each kept as its format
  and arguments. \<open>calls\<close> counts the external commands run so far.
\<close>

datatype log_line =
    ErrorFetching string error
  | UpdatedMetrics string Time Time


record state =
  certStart :: "string \<rightharpoonup> int"
  certExpiry :: "string \<rightharpoonup> int"
  logs :: "log_line list"
  calls :: nat


subsection \<open>updateMetrics\<close>

text \<open>One iteration of the loop body (lines 91 to 100) for one domain.\<close>

definition update_one :: "shell \<Rightarrow> parser \<Rightarrow> string \<Rightarrow> state \<Rightarrow> state" where
  "update_one bash parse domain st =
     (case getSSLCertDates bash parse (calls st) domain of
        Inl err \<Rightarrow>
          st\<lparr>logs := logs st @ [ErrorFetching domain err], calls := Suc (calls st)\<rparr>
      | Inr (start, expiry) \<Rightarrow>
          st\<lparr>certStart := (certStart st)(domain \<mapsto> float64 (Unix start)),
             certExpiry := (certExpiry st)(domain \<mapsto> float64 (Unix expiry)),
             logs := logs st @ [UpdatedMetrics domain start expiry],
             calls := Suc (calls st)\<rparr>)"

fun updateMetrics :: "shell \<Rightarrow> parser \<Rightarrow> string list \<Rightarrow> state \<Rightarrow> state" where
  "updateMetrics bash parse [] st = st"
| "updateMetrics bash parse (domain # rest) st =
     updateMetrics bash parse rest (update_one bash parse domain st)"

subsection \<open>Package os and package bufio\<close>

text \<open>
  An open file is the bytes its reads deliver and the way the reading ends: \<open>None\<close> for
  end of file, \<open>Some e\<close> for an I/O error after those bytes. \<^verbatim>\<open>os.Open\<close> is a parameter
  \<open>os_Open\<close> of the model, from paths to an error or an open file.
\<close>

datatype os_file = File string "error option"

type_synonym filesystem = "string \<Rightarrow> error + os_file"

text \<open>
  \<^verbatim>\<open>func dropCR(data []byte) []byte {
      if len(data) > 0 && data[len(data)-1] == '\r' { return data[0 : len(data)-1] }
      return data }\<close>
\<close>

definition dropCR :: "string \<Rightarrow> string" where
  "dropCR data = (if data \<noteq> [] \<and> last data = CHR 0x0D then butlast data else data)"

text \<open>
  \<^verbatim>\<open>bufio.Scanner\<close> with its default split function \<^verbatim>\<open>ScanLines\<close> and its default buffer.
  A token is a line without its end-of-line marker (\<^verbatim>\<open>\n\<close> or \<^verbatim>\<open>\r\n\<close>); a last line
  without newline is a token when it is not empty. The buffer grows to
  \<^verbatim>\<open>MaxScanTokenSize\<close> bytes and no further: when it is full and holds no newline, \<^verbatim>\<open>Scan\<close>
  stops with \<^verbatim>\<open>ErrTooLong\<close>, so a line of \<^verbatim>\<open>MaxScanTokenSize\<close> bytes or more (its newline
  not counted) ends the scan. When the reads end in an I/O error, the bytes left are
  given out as the last token and \<^verbatim>\<open>Err()\<close> is that error.

  \<open>scan_tokens cur data fin\<close> is the list of the tokens for which \<^verbatim>\<open>Scan()\<close> returns true,
  with the value of \<^verbatim>\<open>Err()\<close> afterwards; \<open>cur\<close> is the part of the current line already
  read.
\<close>

definition MaxScanTokenSize :: nat where
  "MaxScanTokenSize = 64 * 1024"

fun scan_tokens :: "string \<Rightarrow> string \<Rightarrow> error option \<Rightarrow> string list \<times> error option" where
  "scan_tokens cur [] fin =
     (if MaxScanTokenSize \<le> length cur then ([], Some ErrTooLong)
      else if cur = [] then ([], fin)
      else ([dropCR cur], fin))"
| "scan_tokens cur (c # cs) fin =
     (if MaxScanTokenSize \<le> length cur then ([], Some ErrTooLong)
      else if c = newline then
        (case scan_tokens [] cs fin of (tokens, err) \<Rightarrow> (dropCR cur # tokens, err))
      else scan_tokens (cur @ [c]) cs fin)"

subsection \<open>readDomains\<close>

text \<open>
  \<^verbatim>\<open>strings.TrimSpace\<close> decodes UTF-8 and consults the Unicode tables; it is a parameter
  \<open>TrimSpace\<close> of the model. The loop of lines 76 to 81 runs over the scanner's tokens
  with the slice \<^verbatim>\<open>domains\<close> as accumulator.
\<close>

fun collect_domains :: "(string \<Rightarrow> string) \<Rightarrow> string list \<Rightarrow> string list \<Rightarrow> string list" where
  "collect_domains TrimSpace [] domains = domains"
| "collect_domains TrimSpace (text # rest) domains =
     (let line = TrimSpace text in
      if line \<noteq> [] \<and> \<not> HasPrefix line ''#''
      then collect_domains TrimSpace rest (domains @ [line])
      else collect_domains TrimSpace rest domains)"

definition readDomains ::
  "filesystem \<Rightarrow> (string \<Rightarrow> string) \<Rightarrow> string \<Rightarrow> error + string list" where
  "readDomains os_Open TrimSpace filePath =
     (case os_Open filePath of
        Inl err \<Rightarrow> Inl err
      | Inr (File content fin) \<Rightarrow>
          (case scan_tokens [] content fin of
             (tokens, scan_err) \<Rightarrow>
               (let domains = collect_domains TrimSpace tokens [] in
                case scan_err of Some err \<Rightarrow> Inl err | None \<Rightarrow> Inr domains)))"

subsection \<open>main\<close>

text \<open>
  What a goroutine does is kept as the list of its actions, each stamped with the
  reading of the process clock (in nanoseconds) when it begins.
\<close>

datatype event =
    ReadDomains string
  | Refresh "string list"
  | Go
  | Sleep nat
  | Handle string
  | Starting string
  | ListenAndServe string

record proc =
  registry :: state
  clock :: nat
  events :: "(nat \<times> event) list"


text \<open>
  How long an action takes is for the machine to say: \<open>elapsed k\<close> is the time the
  \<open>k\<close>-th action of a goroutine takes beyond its least duration, which is \<open>d\<close> for
  \<^verbatim>\<open>time.Sleep(d)\<close> ("pauses the current goroutine for at least the duration d") and
  nothing for the others. \<open>perform elapsed ev least f\<close> is one action: it changes the
  registry by \<open>f\<close> and returns when the action is over.
\<close>

definition perform :: "(nat \<Rightarrow> nat) \<Rightarrow> event \<Rightarrow> nat \<Rightarrow> (state \<Rightarrow> state) \<Rightarrow> proc \<Rightarrow> proc" where
  "perform elapsed ev least f p =
     p\<lparr>registry := f (registry p),
       clock := clock p + least + elapsed (length (events p)),
       events := events p @ [(clock p, ev)]\<rparr>"








subsection \<open>The spec's vocabulary\<close>

text \<open>
  The date string a line of the tool's output carries, if it begins with one of the two
  prefixes; a line is malformed when it carries a date string that does not conform to
  the layout.
\<close>

definition date_field :: "string \<Rightarrow> string option" where
  "date_field line =
     (if HasPrefix line ''notBefore='' then Some (TrimPrefix line ''notBefore='')
      else if HasPrefix line ''notAfter='' then Some (TrimPrefix line ''notAfter='')
      else None)"

definition malformed :: "parser \<Rightarrow> string \<Rightarrow> bool" where
  "malformed parse line \<longleftrightarrow>
     (case date_field line of None \<Rightarrow> False | Some v \<Rightarrow> parse layout v = None)"


text \<open>
  The Loader in the spec's words: split the file at its newlines, trim each line, skip
  a line that is then empty or whose first character is \<^verbatim>\<open>#\<close>, keep the others in
  order.
\<close>

definition kept :: "string \<Rightarrow> bool" where
  "kept line \<longleftrightarrow> \<not> (line = [] \<or> hd line = CHR ''#'')"

definition loadDomains_spec :: "(string \<Rightarrow> string) \<Rightarrow> string \<Rightarrow> string list" where
  "loadDomains_spec TrimSpace content = filter kept (map TrimSpace (Split content newline))"

subsection \<open>Sample inputs\<close>

text \<open>
  Concrete inputs for the worked examples. \<open>sample_parse\<close> is \<^verbatim>\<open>time.Parse\<close> cut down to
  three dates (midnight of January 1 of 2024 and of 2025, noon of June 1, 2023, all
  GMT); \<open>scripted outs\<close> is the world in which the \<open>k\<close>-th command the process runs ends
  as the \<open>k\<close>-th entry of \<open>outs\<close> says.
\<close>

definition sample_parse :: parser where
  "sample_parse l v =
     (if l = layout \<and> v = ''Jan 1 00:00:00 2024 GMT''
        then Some \<lparr>ext = 63839664000, wall = 0\<rparr>
      else if l = layout \<and> v = ''Jan 1 00:00:00 2025 GMT''
        then Some \<lparr>ext = 63871286400, wall = 0\<rparr>
      else if l = layout \<and> v = ''Jun 1 12:00:00 2023 GMT''
        then Some \<lparr>ext = 63821217600, wall = 0\<rparr>
      else None)"

definition scripted :: "proc_outcome list \<Rightarrow> shell" where
  "scripted outs k cmd = (if k < length outs then outs ! k else NotStarted)"

definition sample_output :: string where
  "sample_output =
     ''notBefore=Jan 1 00:00:00 2024 GMT\<newline>notAfter=Jan 1 00:00:00 2025 GMT\<newline>''"


definition garbled_output :: string where
  "garbled_output =
     ''notBefore=yesterday\<newline>notBefore=Jan 1 00:00:00 2024 GMT\<newline>notAfter=Jan 1 00:00:00 2025 GMT\<newline>''"

definition dateless_output :: string where
  "dateless_output = ''subject=CN = example.com\<newline>''"

text \<open>
  For \<^verbatim>\<open>readDomains\<close>: \<open>trim_ascii\<close> is \<^verbatim>\<open>strings.TrimSpace\<close> on strings of ASCII bytes
  (its white space there is tab, line feed, vertical tab, form feed, carriage return
  and space); \<open>one_file name f\<close> is the file system that holds the one file \<open>f\<close> under
  \<open>name\<close>; \<open>prompt\<close> is the machine on which no action takes longer than it must.
\<close>

definition is_ascii_space :: "char \<Rightarrow> bool" where
  "is_ascii_space c \<longleftrightarrow>
     c = CHR 0x09 \<or> c = CHR 0x0A \<or> c = CHR 0x0B \<or> c = CHR 0x0C \<or> c = CHR 0x0D \<or> c = CHR 0x20"

definition trim_ascii :: "string \<Rightarrow> string" where
  "trim_ascii s = dropWhile is_ascii_space (rev (dropWhile is_ascii_space (rev s)))"

definition one_file :: "string \<Rightarrow> os_file \<Rightarrow> filesystem" where
  "one_file name f path = (if path = name then Inr f else Inl (PathError path))"

definition sample_config :: string where
  "sample_config =
     ''# monitored hosts\<newline>example.com'' @ [CHR 0x0D] @
     ''\<newline>\<newline>  example.org  \<newline>example.com''"


section \<open>Properties\<close>

subsection \<open>Auxiliary facts\<close>





lemma split_from_not_Nil [simp]: "split_from cur s sep \<noteq> []"
  by (induction s arbitrary: cur) auto

lemma Split_not_Nil [simp]: "Split s sep \<noteq> []"
  by (simp add: Split_def)


lemma scan_dates_ignored:
  "\<forall>l \<in> set lines. date_field l = None \<Longrightarrow> scan_dates parse lines s e = Inr (s, e)"
  by (induction lines arbitrary: s e) (auto simp: date_field_def split: if_splits)

lemma scan_dates_first_malformed:
  assumes "\<forall>l \<in> set pre. \<not> malformed parse l"
    and "date_field line = Some v" and "parse layout v = None"
  shows "scan_dates parse (pre @ line # post) s e = Inl (ParseError layout v)"
  using assms
proof (induction pre arbitrary: s e)
  case Nil
  then show ?case
    by (auto simp: date_field_def time_Parse_def split: if_splits)
next
  case (Cons l pre)
  then show ?case
    by (auto simp: malformed_def date_field_def time_Parse_def split: if_splits option.splits)
qed




subsection \<open>Claim C1: when the probe fails with a Probe Error\<close>

text \<open>
  C1 as stated fails on the code: the external call exits with status 0 and prints
  nothing, and the probe returns the two zero-value instants with a nil error.
  \<^verbatim>\<open>strings.Split\<close> of the empty output is the single empty line, which matches neither
  prefix.
\<close>

theorem probe_empty_output_counterexample:
  "scripted [Exited 0 []] 0 (probe_cmd ''example.com'') = Exited 0 [] \<and>
   getSSLCertDates (scripted [Exited 0 []]) sample_parse 0 ''example.com'' =
     Inr (zeroTime, zeroTime)"
  by (simp add: getSSLCertDates_def scripted_def Split_def HasPrefix_def)

text \<open>
  C1, amended: for every domain and whatever the tool printed, the probe fails with a
  Probe Error whenever the external call returns an error, that is, it exits non-zero
  (the error is the \<^verbatim>\<open>ExitError\<close>) or cannot be run; when the call exits zero with empty
  output, the probe returns the zero-value instants and no error.
\<close>

theorem probe_error_on_failed_call:
  "(bash k (probe_cmd domain) = Exited n out \<and> n \<noteq> 0 \<longrightarrow>
      getSSLCertDates bash parse k domain = Inl (ExitError n) \<and> is_probe_error (ExitError n)) \<and>
   (bash k (probe_cmd domain) = NotStarted \<longrightarrow>
      getSSLCertDates bash parse k domain = Inl ExecFailure \<and> is_probe_error ExecFailure) \<and>
   (bash k (probe_cmd domain) = Exited 0 [] \<longrightarrow>
      getSSLCertDates bash parse k domain = Inr (zeroTime, zeroTime))"
  by (simp add: getSSLCertDates_def HasPrefix_def Split_def)

text \<open>The three cases of C1 on a world whose three commands end in the three ways.\<close>

theorem probe_error_on_failed_call_witness:
  "getSSLCertDates (scripted [Exited 1 sample_output, NotStarted, Exited 0 []]) sample_parse
     0 ''example.com'' = Inl (ExitError 1) \<and>
   getSSLCertDates (scripted [Exited 1 sample_output, NotStarted, Exited 0 []]) sample_parse
     1 ''example.com'' = Inl ExecFailure \<and>
   getSSLCertDates (scripted [Exited 1 sample_output, NotStarted, Exited 0 []]) sample_parse
     2 ''example.com'' = Inr (zeroTime, zeroTime)"
  using probe_error_on_failed_call
    [of "scripted [Exited 1 sample_output, NotStarted, Exited 0 []]" 0 "''example.com''" 1
        sample_output sample_parse]
    probe_error_on_failed_call
    [of "scripted [Exited 1 sample_output, NotStarted, Exited 0 []]" 1 "''example.com''" 1
        sample_output sample_parse]
    probe_error_on_failed_call
    [of "scripted [Exited 1 sample_output, NotStarted, Exited 0 []]" 2 "''example.com''" 1
        sample_output sample_parse]
  by (simp add: scripted_def)

subsection \<open>Claim C3: the last occurrence of each prefix wins\<close>





subsection \<open>Claim C7: an output without dates\<close>

text \<open>
  C7: when no line of the output begins with \<^verbatim>\<open>notBefore=\<close> or \<^verbatim>\<open>notAfter=\<close>, the scan
  returns the zero-value instant for both start and expiry and no error, and the probe
  succeeds exactly when the external call exited with status 0.
\<close>

theorem no_dates_zero_instants:
  assumes "\<forall>l \<in> set (Split out newline).
             \<not> HasPrefix l ''notBefore='' \<and> \<not> HasPrefix l ''notAfter=''"
  shows "scan_dates parse (Split out newline) zeroTime zeroTime = Inr (zeroTime, zeroTime) \<and>
         (bash k (probe_cmd domain) = Exited n out \<longrightarrow>
            getSSLCertDates bash parse k domain =
              (if n = 0 then Inr (zeroTime, zeroTime) else Inl (ExitError n)))"
proof -
  have "\<forall>l \<in> set (Split out newline). date_field l = None"
    using assms by (simp add: date_field_def)
  then have "scan_dates parse (Split out newline) zeroTime zeroTime = Inr (zeroTime, zeroTime)"
    by (rule scan_dates_ignored)
  then show ?thesis by (simp add: getSSLCertDates_def)
qed

lemma Split_dateless:
  "Split dateless_output newline = [''subject=CN = example.com'', []]"
  by (simp add: dateless_output_def newline_def Split_def)

theorem no_dates_zero_instants_witness:
  "list_all (\<lambda>l. \<not> HasPrefix l ''notBefore='' \<and> \<not> HasPrefix l ''notAfter='')
     (Split dateless_output newline) \<and>
   getSSLCertDates (scripted [Exited 0 dateless_output, Exited 1 dateless_output]) sample_parse
     0 ''example.com'' = Inr (zeroTime, zeroTime) \<and>
   getSSLCertDates (scripted [Exited 0 dateless_output, Exited 1 dateless_output]) sample_parse
     1 ''example.com'' = Inl (ExitError 1)"
proof -
  have h: "\<forall>l \<in> set (Split dateless_output newline).
      \<not> HasPrefix l ''notBefore='' \<and> \<not> HasPrefix l ''notAfter=''"
    by (simp add: Split_dateless HasPrefix_def)
  show ?thesis
    using h [folded list_all_iff]
      no_dates_zero_instants [OF h,
        where parse = sample_parse and k = 0 and n = 0 and domain = "''example.com''"
          and bash = "scripted [Exited 0 dateless_output, Exited 1 dateless_output]"]
      no_dates_zero_instants [OF h,
        where parse = sample_parse and k = 1 and n = 1 and domain = "''example.com''"
          and bash = "scripted [Exited 0 dateless_output, Exited 1 dateless_output]"]
    by (simp add: scripted_def)
qed

subsection \<open>Claim C9: the first malformed date ends the scan\<close>

text \<open>
  C9: the scan returns the Parse Error of the first malformed \<^verbatim>\<open>notBefore=\<close> or
  \<^verbatim>\<open>notAfter=\<close> line at once: the result is that error whatever lines follow, so a later
  well-formed line with the same prefix is never read.
\<close>

theorem first_malformed_aborts:
  assumes "bash k (probe_cmd domain) = Exited 0 out"
    and "Split out newline = before @ line # later"
    and "\<forall>l \<in> set before. \<not> malformed parse l"
    and "date_field line = Some v" and "parse layout v = None"
  shows "getSSLCertDates bash parse k domain = Inl (ParseError layout v) \<and>
         (\<forall>others. scan_dates parse (before @ line # others) zeroTime zeroTime =
                     Inl (ParseError layout v))"
  using assms scan_dates_first_malformed [OF assms(3) assms(4) assms(5)]
  by (simp add: getSSLCertDates_def)

lemma Split_garbled:
  "Split garbled_output newline =
     [''notBefore=yesterday'', ''notBefore=Jan 1 00:00:00 2024 GMT'',
      ''notAfter=Jan 1 00:00:00 2025 GMT'', []]"
  by (simp add: garbled_output_def newline_def Split_def)

theorem first_malformed_aborts_witness:
  "scripted [Exited 0 garbled_output] 0 (probe_cmd ''example.com'') = Exited 0 garbled_output \<and>
   Split garbled_output newline =
     [] @ ''notBefore=yesterday'' #
       [''notBefore=Jan 1 00:00:00 2024 GMT'', ''notAfter=Jan 1 00:00:00 2025 GMT'', []] \<and>
   date_field ''notBefore=yesterday'' = Some ''yesterday'' \<and>
   sample_parse layout ''yesterday'' = None \<and>
   \<not> malformed sample_parse ''notBefore=Jan 1 00:00:00 2024 GMT'' \<and>
   getSSLCertDates (scripted [Exited 0 garbled_output]) sample_parse 0 ''example.com'' =
     Inl (ParseError layout ''yesterday'')"
proof -
  have h1: "scripted [Exited 0 garbled_output] 0 (probe_cmd ''example.com'') =
            Exited 0 garbled_output"
    by (simp add: scripted_def)
  have h2: "Split garbled_output newline =
     [] @ ''notBefore=yesterday'' #
       [''notBefore=Jan 1 00:00:00 2024 GMT'', ''notAfter=Jan 1 00:00:00 2025 GMT'', []]"
    by (simp add: Split_garbled)
  have h3: "\<forall>l \<in> set []. \<not> malformed sample_parse l" by simp
  have h4: "date_field ''notBefore=yesterday'' = Some ''yesterday''"
    by (simp add: date_field_def HasPrefix_def TrimPrefix_def)
  have h5: "sample_parse layout ''yesterday'' = None"
    by (simp add: sample_parse_def)
  have h6: "\<not> malformed sample_parse ''notBefore=Jan 1 00:00:00 2024 GMT''"
    by (simp add: malformed_def date_field_def HasPrefix_def TrimPrefix_def sample_parse_def)
  show ?thesis
    using h1 h2 h4 h5 h6 first_malformed_aborts
        [where bash = "scripted [Exited 0 garbled_output]" and parse = sample_parse,
         OF h1 h2 h3 h4 h5] by simp
qed

subsection \<open>Facts about a refresh cycle\<close>

lemma calls_update_one [simp]: "calls (update_one bash parse d st) = Suc (calls st)"
  by (simp add: update_one_def split: sum.splits prod.splits)

lemma calls_updateMetrics [simp]:
  "calls (updateMetrics bash parse ds st) = calls st + length ds"
  by (induction ds arbitrary: st) simp_all















subsection \<open>Claim C4: a failed probe is logged and skipped\<close>





subsection \<open>Claim C5: a failed probe leaves the last good values\<close>




subsection \<open>Claim C6: a malformed date fails one probe only\<close>





subsection \<open>Claim C10: a successful call without dates publishes the zero instant\<close>




subsection \<open>Claim C2: what readDomains returns\<close>

lemma split_from_hd: "\<exists>l rest. split_from cur s sep = (cur @ l) # rest"
proof (induction s arbitrary: cur)
  case Nil
  show ?case by simp
next
  case (Cons c cs)
  show ?case
  proof (cases "c = sep")
    case True
    then show ?thesis by simp
  next
    case False
    obtain l rest where "split_from (cur @ [c]) cs sep = ((cur @ [c]) @ l) # rest"
      using Cons.IH [of "cur @ [c]"] by (elim exE)
    then have "split_from cur (c # cs) sep = (cur @ (c # l)) # rest"
      using False by simp
    then show ?thesis by (intro exI)
  qed
qed

lemma split_from_bound:
  assumes "\<forall>l \<in> set (split_from cur s sep). length l < n"
  shows "length cur < n"
proof -
  obtain l rest where e: "split_from cur s sep = (cur @ l) # rest"
    using split_from_hd [of cur s sep] by (elim exE)
  have "length (cur @ l) < n" using assms unfolding e by simp
  then show ?thesis by simp
qed

lemma TrimSpace_dropCR:
  assumes "\<forall>l. T (l @ [CHR 0x0D]) = T l"
  shows "T (dropCR l) = T l"
proof (cases "l \<noteq> [] \<and> last l = CHR 0x0D")
  case True
  then have "l = butlast l @ [CHR 0x0D]" by (metis append_butlast_last_id)
  then have "T l = T (butlast l)" using assms by metis
  then show ?thesis using True by (simp add: dropCR_def)
next
  case False
  then show ?thesis by (auto simp: dropCR_def)
qed

lemma scan_tokens_lines:
  assumes "\<forall>l \<in> set (split_from cur data newline). length l < MaxScanTokenSize"
    and "T [] = []" and "\<forall>l. T (l @ [CHR 0x0D]) = T l" and "\<not> P []"
  shows "snd (scan_tokens cur data None) = None \<and>
         filter P (map T (fst (scan_tokens cur data None))) =
         filter P (map T (split_from cur data newline))"
  using assms(1)
proof (induction data arbitrary: cur)
  case Nil
  then have "length cur < MaxScanTokenSize" by simp
  then show ?case
    using assms(2,4) TrimSpace_dropCR [OF assms(3)] by simp
next
  case (Cons c cs)
  have short: "length cur < MaxScanTokenSize"
    using Cons.prems by (rule split_from_bound)
  show ?case
  proof (cases "c = newline")
    case True
    then have "\<forall>l \<in> set (split_from [] cs newline). length l < MaxScanTokenSize"
      using Cons.prems by simp
    then have IH: "snd (scan_tokens [] cs None) = None \<and>
         filter P (map T (fst (scan_tokens [] cs None))) =
         filter P (map T (split_from [] cs newline))"
      by (rule Cons.IH)
    show ?thesis
      using True short IH TrimSpace_dropCR [OF assms(3), of cur]
      by (simp add: split_beta)
  next
    case False
    then have "\<forall>l \<in> set (split_from (cur @ [c]) cs newline). length l < MaxScanTokenSize"
      using Cons.prems by simp
    then have "snd (scan_tokens (cur @ [c]) cs None) = None \<and>
         filter P (map T (fst (scan_tokens (cur @ [c]) cs None))) =
         filter P (map T (split_from (cur @ [c]) cs newline))"
      by (rule Cons.IH)
    then show ?thesis using False short by simp
  qed
qed

lemma collect_domains_filter:
  "collect_domains T tokens acc =
   acc @ filter (\<lambda>l. l \<noteq> [] \<and> \<not> HasPrefix l ''#'') (map T tokens)"
  by (induction tokens arbitrary: acc) (simp_all add: Let_def)

lemma kept_code: "kept l \<longleftrightarrow> l \<noteq> [] \<and> \<not> HasPrefix l ''#''"
  by (cases l) (simp_all add: kept_def HasPrefix_def)

lemma scan_tokens_too_long:
  "newline \<notin> set data \<Longrightarrow> MaxScanTokenSize \<le> length cur + length data \<Longrightarrow>
   scan_tokens cur data fin = ([], Some ErrTooLong)"
proof (induction data arbitrary: cur)
  case Nil
  then show ?case by simp
next
  case (Cons c cs)
  show ?case
  proof (cases "MaxScanTokenSize \<le> length cur")
    case True
    then show ?thesis by simp
  next
    case False
    have "newline \<notin> set cs" "MaxScanTokenSize \<le> length (cur @ [c]) + length cs"
      using Cons.prems by simp_all
    then have "scan_tokens (cur @ [c]) cs fin = ([], Some ErrTooLong)"
      by (rule Cons.IH)
    moreover have "c \<noteq> newline" using Cons.prems(1) by auto
    ultimately show ?thesis using False by simp
  qed
qed


text \<open>
  C2 as stated fails on the code: a file that opens and reads without error, and whose
  only line has 65536 bytes, makes the scanner stop with \<^verbatim>\<open>ErrTooLong\<close>, and
  \<^verbatim>\<open>readDomains\<close> returns that error and no domain, where the claim has the one line.
\<close>

theorem readDomains_long_line_counterexample:
  "one_file ''domains.cfg'' (File (replicate 65536 (CHR ''a'')) None) ''domains.cfg'' =
     Inr (File (replicate 65536 (CHR ''a'')) None) \<and>
   readDomains (one_file ''domains.cfg'' (File (replicate 65536 (CHR ''a'')) None)) trim_ascii
     ''domains.cfg'' = Inl ErrTooLong"
proof -
  have "newline \<notin> set (replicate 65536 (CHR ''a''))"
    by (simp add: newline_def)
  moreover have "MaxScanTokenSize \<le> length ([] :: string) + length (replicate 65536 (CHR ''a''))"
    by (simp add: MaxScanTokenSize_def)
  ultimately have "scan_tokens [] (replicate 65536 (CHR ''a'')) None = ([], Some ErrTooLong)"
    by (rule scan_tokens_too_long)
  then show ?thesis
    by (simp add: readDomains_def one_file_def)
qed

text \<open>
  C2, amended: for every config file that opens and reads without error and whose
  lines are each shorter than \<^verbatim>\<open>MaxScanTokenSize\<close> (65536) bytes, \<^verbatim>\<open>readDomains\<close> returns
  exactly the lines that, after trimming, are non-empty and do not start with \<^verbatim>\<open>#\<close>,
  each trimmed, in file order, duplicates kept. The lines are the pieces between the
  newlines. Of \<^verbatim>\<open>strings.TrimSpace\<close> the proof uses that it maps the empty string to
  itself and removes a trailing carriage return.
\<close>

theorem readDomains_returns_kept_lines:
  assumes "os_Open path = Inr (File content None)"
    and "\<forall>l \<in> set (Split content newline). length l < MaxScanTokenSize"
    and "TrimSpace [] = []" and "\<forall>l. TrimSpace (l @ [CHR 0x0D]) = TrimSpace l"
  shows "readDomains os_Open TrimSpace path = Inr (loadDomains_spec TrimSpace content)"
proof -
  have "\<forall>l \<in> set (split_from [] content newline). length l < MaxScanTokenSize"
    using assms(2) by (simp add: Split_def)
  moreover have "\<not> kept []" by (simp add: kept_def)
  ultimately have sc: "snd (scan_tokens [] content None) = None \<and>
      filter kept (map TrimSpace (fst (scan_tokens [] content None))) =
      filter kept (map TrimSpace (split_from [] content newline))"
    using assms(3) assms(4) by (intro scan_tokens_lines)
  have k: "(\<lambda>l. l \<noteq> [] \<and> \<not> HasPrefix l ''#'') = kept"
    by (rule ext) (simp add: kept_code)
  have "collect_domains TrimSpace (fst (scan_tokens [] content None)) [] =
        filter kept (map TrimSpace (fst (scan_tokens [] content None)))"
    by (simp add: collect_domains_filter k)
  then have "collect_domains TrimSpace (fst (scan_tokens [] content None)) [] =
        loadDomains_spec TrimSpace content"
    using sc by (simp add: loadDomains_spec_def Split_def)
  then show ?thesis
    using assms(1) sc by (simp add: readDomains_def split_beta)
qed

text \<open>
  A file with a comment, a line ending in \<^verbatim>\<open>\r\n\<close>, an empty line, a line with spaces
  around the name, a duplicate and no final newline.
\<close>

lemma trim_ascii_Nil: "trim_ascii [] = []"
  by (simp add: trim_ascii_def)

lemma trim_ascii_CR: "\<forall>l. trim_ascii (l @ [CHR 0x0D]) = trim_ascii l"
  by (simp add: trim_ascii_def is_ascii_space_def)

lemma Split_sample_config:
  "Split sample_config newline =
     [''# monitored hosts'', ''example.com'' @ [CHR 0x0D], [], ''  example.org  '',
      ''example.com'']"
  by (simp add: sample_config_def newline_def Split_def)

lemma loadDomains_sample_config:
  "loadDomains_spec trim_ascii sample_config = [''example.com'', ''example.org'', ''example.com'']"
  by (simp add: loadDomains_spec_def Split_sample_config trim_ascii_def is_ascii_space_def
      kept_def)

theorem readDomains_returns_kept_lines_witness:
  "one_file ''domains.cfg'' (File sample_config None) ''domains.cfg'' =
     Inr (File sample_config None) \<and>
   list_all (\<lambda>l. length l < MaxScanTokenSize) (Split sample_config newline) \<and>
   trim_ascii [] = [] \<and>
   (\<forall>l. trim_ascii (l @ [CHR 0x0D]) = trim_ascii l) \<and>
   readDomains (one_file ''domains.cfg'' (File sample_config None)) trim_ascii ''domains.cfg'' =
     Inr [''example.com'', ''example.org'', ''example.com'']"
proof -
  have h1: "one_file ''domains.cfg'' (File sample_config None) ''domains.cfg'' =
     Inr (File sample_config None)"
    by (simp add: one_file_def)
  have h2: "\<forall>l \<in> set (Split sample_config newline). length l < MaxScanTokenSize"
    by (simp add: Split_sample_config MaxScanTokenSize_def)
  have r: "readDomains (one_file ''domains.cfg'' (File sample_config None)) trim_ascii
             ''domains.cfg'' = Inr [''example.com'', ''example.org'', ''example.com'']"
    using readDomains_returns_kept_lines
      [where os_Open = "one_file ''domains.cfg'' (File sample_config None)"
         and TrimSpace = trim_ascii, OF h1 h2 trim_ascii_Nil trim_ascii_CR]
    unfolding loadDomains_sample_config .
  show ?thesis
    by (rule conjI [OF h1 conjI [OF h2 [folded list_all_iff]
          conjI [OF trim_ascii_Nil conjI [OF trim_ascii_CR r]]]])
qed

subsection \<open>Claim C8: the order of startup and the refresh period\<close>


lemma perform_simps [simp]:
  "registry (perform elapsed ev least f p) = f (registry p)"
  "clock (perform elapsed ev least f p) = clock p + least + elapsed (length (events p))"
  "events (perform elapsed ev least f p) = events p @ [(clock p, ev)]"
  by (simp_all add: perform_def)











end
